theory Spec2Isabelle
  imports Complex_Main "HOL-Library.AList" "HOL-Library.Char_ord" "HOL-Library.List_Lexorder"
begin

section \<open>Python strings\<close>

text \<open>
  A Python \<open>str\<close> is modelled as a \<open>string\<close>, one \<open>char\<close> per code point below 256.
  \<open>len\<close> is \<open>length\<close>. The three string operations the chunker uses are
  \<open>str.strip()\<close>, \<open>str.split('\n\n')\<close> and the slice \<open>s[-k:]\<close>.
\<close>

definition isspace :: "char \<Rightarrow> bool" where
  \<comment> \<open>\<open>str.isspace\<close> on one code point below 256: TAB..CR, FS..US, SPACE, NEL, NBSP.\<close>
  "isspace c =
     (let n = (of_char c :: nat)
      in (9 \<le> n \<and> n \<le> 13) \<or> (28 \<le> n \<and> n \<le> 32) \<or> n = 133 \<or> n = 160)"

definition strip :: "string \<Rightarrow> string" where
  \<comment> \<open>\<open>s.strip()\<close>: leading and trailing whitespace removed.\<close>
  "strip s = rev (dropWhile isspace (rev (dropWhile isspace s)))"

definition para_sep :: string where
  \<comment> \<open>the literal \<open>'\n\n'\<close>\<close>
  "para_sep = [CHR 0x0A, CHR 0x0A]"

fun split_acc :: "string \<Rightarrow> string \<Rightarrow> string list" where
  \<comment> \<open>\<open>s.split('\n\n')\<close>, scanning left to right; the first argument is the piece read so far.\<close>
  "split_acc acc [] = [acc]"
| "split_acc acc [c] = [acc @ [c]]"
| "split_acc acc (c # d # cs) =
     (if c = CHR 0x0A \<and> d = CHR 0x0A then acc # split_acc [] cs
      else split_acc (acc @ [c]) (d # cs))"

definition split_paras :: "string \<Rightarrow> string list" where
  "split_paras s = split_acc [] s"

definition slice_last :: "int \<Rightarrow> 'a list \<Rightarrow> 'a list" where
  \<comment> \<open>\<open>s[-k:]\<close>: the start index \<open>-k\<close> counts from the end when negative (clamped at 0)
      and from the front otherwise; \<open>-0\<close> is \<open>0\<close>, so \<open>s[-0:]\<close> is all of \<open>s\<close>.\<close>
  "slice_last k s =
     (let n = int (length s); start = - k
      in if start < 0 then drop (nat (max 0 (n + start))) s else drop (nat start) s)"

section \<open>Configuration (app/core/config.py)\<close>

record settings =
  chunk_size :: int
  chunk_overlap :: int
  embedding_model :: string
  embedding_dimension :: int
  qdrant_collection_name :: string
  max_file_size :: int

definition default_settings :: settings where
  "default_settings =
     \<lparr>chunk_size = 1000, chunk_overlap = 200, embedding_model = ''all-MiniLM-L6-v2'',
      embedding_dimension = 384, qdrant_collection_name = ''rag_documents'',
      max_file_size = 50000000\<rparr>"

section \<open>Python values and dictionaries\<close>

datatype pyval =
  PNone | PStr string | PInt int | PFloat real | PDict "(string \<times> pyval) list"

text \<open>
  A dictionary with string keys is an association list in insertion order with distinct
  keys. A \<open>float\<close> is carried as a \<open>real\<close>: the program only stores, compares and passes
  scores on, it does no arithmetic with them.
\<close>

type_synonym pydict = "(string \<times> pyval) list"

definition dict_get :: "pydict \<Rightarrow> string \<Rightarrow> pyval" where
  \<comment> \<open>\<open>d.get(k)\<close>: \<open>None\<close> for a missing key. It also stands for \<open>d[k]\<close> where the program
      reads a key of a dictionary it has just built with that key.\<close>
  "dict_get d k = (case map_of d k of None \<Rightarrow> PNone | Some v \<Rightarrow> v)"

definition dict_get_default :: "pydict \<Rightarrow> string \<Rightarrow> pyval \<Rightarrow> pyval" where
  \<comment> \<open>\<open>d.get(k, default)\<close>\<close>
  "dict_get_default d k dflt = (case map_of d k of None \<Rightarrow> dflt | Some v \<Rightarrow> v)"

definition dict_merge :: "pydict \<Rightarrow> pydict \<Rightarrow> pydict" where
  \<comment> \<open>\<open>{**a, **b}\<close>: a key of \<open>b\<close> already in \<open>a\<close> keeps its place and takes the new value\<close>
  "dict_merge a b = foldl (\<lambda>acc (k, v). AList.update k v acc) a b"


fun str_nat :: "nat \<Rightarrow> string" where
  \<comment> \<open>\<open>str(i)\<close> of a non-negative integer, in decimal\<close>
  "str_nat n =
     (if n < 10 then [char_of (48 + n)] else str_nat (n div 10) @ [char_of (48 + n mod 10)])"

datatype error =
    RuntimeError \<comment> \<open>raised by \<open>generate_embedding\<close>: embedding model not initialized\<close>
  | AttributeError \<comment> \<open>a method called on the \<open>None\<close> client\<close>
  | CollectionNotFound \<comment> \<open>the index answers that the collection does not exist\<close>
  | ValidationError \<comment> \<open>the index refuses a vector of the wrong length\<close>

section \<open>The relational store (app/models)\<close>

text \<open>
  The rows carry the columns the handlers read or write. Timestamps, the stored file and
  the processing status of a document are not part of the model. The primary key \<open>id\<close>
  is written \<open>id'\<close>.
\<close>

record Project =
  id' :: string
  document_count :: int
  query_count :: int

record Document =
  id' :: string
  project_id :: string
  filename :: string
  file_size :: int
  file_type :: string
  chunk_count :: int

record Chunk =
  id' :: string
  document_id :: string
  content :: string
  chunk_index :: nat
  chunk_metadata :: pydict

datatype QueryStatus = PENDING | PROCESSING | COMPLETED | FAILED

record Query =
  id' :: string
  project_id :: string
  query_text :: string
  response_text :: string
  model_used :: string
  citations :: "pydict list"
  status :: QueryStatus

text \<open>
  \<open>healthy\<close> is false when the store cannot be reached: the first query of a handler
  then raises, the handler rolls back and answers 500.
\<close>

record database =
  healthy :: bool
  project_table :: "Project list"
  document_table :: "Document list"
  chunk_table :: "Chunk list"
  query_table :: "Query list"

fun update_first :: "('a \<Rightarrow> bool) \<Rightarrow> ('a \<Rightarrow> 'a) \<Rightarrow> 'a list \<Rightarrow> 'a list" where
  \<comment> \<open>a change made to the row that \<open>.first()\<close> returned\<close>
  "update_first P f [] = []"
| "update_first P f (x # xs) = (if P x then f x # xs else x # update_first P f xs)"


section \<open>The chunker (app/services/chunking.py)\<close>

record chunk =
  content :: string
  chunk_index :: nat
  start_para :: int
  end_para :: int
  char_count :: nat

definition paragraphs :: "string \<Rightarrow> string list" where
  \<comment> \<open>\<open>[p.strip() for p in document_text.split('\n\n') if p.strip()]\<close>\<close>
  "paragraphs document_text = filter (\<lambda>p. p \<noteq> []) (map strip (split_paras document_text))"

definition overlap_text :: "int \<Rightarrow> string \<Rightarrow> string" where
  \<comment> \<open>\<open>current_chunk[-chunk_overlap:] if len(current_chunk) > chunk_overlap else current_chunk\<close>\<close>
  "overlap_text ov current_chunk =
     (if int (length current_chunk) > ov then slice_last ov current_chunk else current_chunk)"

definition closes :: "int \<Rightarrow> string \<Rightarrow> string \<Rightarrow> bool" where
  \<comment> \<open>\<open>len(current_chunk) + len(paragraph) > chunk_size and current_chunk\<close>\<close>
  "closes sz current_chunk paragraph \<longleftrightarrow>
     int (length current_chunk) + int (length paragraph) > sz \<and> current_chunk \<noteq> []"

definition emit :: "string \<Rightarrow> nat \<Rightarrow> nat \<Rightarrow> chunk" where
  \<comment> \<open>the dictionary appended to \<open>chunks\<close>; the second argument is \<open>para_idx\<close> in the loop and
      \<open>len(paragraphs)\<close> after it.\<close>
  "emit current_chunk idx para_idx =
     \<lparr>content = strip current_chunk, chunk_index = idx,
      start_para = int para_idx - int (length (split_paras current_chunk)),
      end_para = int para_idx, char_count = length current_chunk\<rparr>"

definition next_buffer :: "int \<Rightarrow> int \<Rightarrow> string \<Rightarrow> string \<Rightarrow> string" where
  \<comment> \<open>the value of \<open>current_chunk\<close> after one paragraph of the loop body\<close>
  "next_buffer sz ov current_chunk paragraph =
     (if closes sz current_chunk paragraph
      then overlap_text ov current_chunk @ para_sep @ paragraph
      else if current_chunk \<noteq> [] then current_chunk @ para_sep @ paragraph
      else paragraph)"

fun chunk_loop ::
  "int \<Rightarrow> int \<Rightarrow> nat \<Rightarrow> string list \<Rightarrow> chunk list \<times> string \<times> nat \<Rightarrow> chunk list \<times> string \<times> nat"
where
  \<comment> \<open>the \<open>for para_idx, paragraph in enumerate(paragraphs)\<close> loop over the state
      \<open>(chunks, current_chunk, chunk_index)\<close>\<close>
  "chunk_loop sz ov para_idx [] st = st"
| "chunk_loop sz ov para_idx (paragraph # rest) (chunks, current_chunk, idx) =
     chunk_loop sz ov (Suc para_idx) rest
       (if closes sz current_chunk paragraph
        then (chunks @ [emit current_chunk idx para_idx],
              next_buffer sz ov current_chunk paragraph, Suc idx)
        else (chunks, next_buffer sz ov current_chunk paragraph, idx))"

definition chunk_text :: "string \<Rightarrow> int \<Rightarrow> int \<Rightarrow> chunk list" where
  \<comment> \<open>the body of \<open>hierarchical_chunking\<close> once both sizes are known\<close>
  "chunk_text document_text sz ov =
     (let ps = paragraphs document_text;
          (chunks, current_chunk, idx) = chunk_loop sz ov 0 ps ([], [], 0)
      in if strip current_chunk \<noteq> []
         then chunks @ [emit current_chunk idx (length ps)]
         else chunks)"

definition hierarchical_chunking ::
  "settings \<Rightarrow> string \<Rightarrow> int option \<Rightarrow> int option \<Rightarrow> chunk list" where
  \<comment> \<open>\<open>None\<close> arguments take the configured defaults; there is no other check on them.\<close>
  "hierarchical_chunking cfg document_text size_arg overlap_arg =
     chunk_text document_text
       (case size_arg of None \<Rightarrow> chunk_size cfg | Some n \<Rightarrow> n)
       (case overlap_arg of None \<Rightarrow> chunk_overlap cfg | Some n \<Rightarrow> n)"

definition inked :: "string \<Rightarrow> bool" where
  \<comment> \<open>the text has a character that is not whitespace, so \<open>strip\<close> leaves something\<close>
  "inked s \<longleftrightarrow> (\<exists>c \<in> set s. \<not> isspace c)"

definition spec_seed :: "int \<Rightarrow> string \<Rightarrow> string" where
  \<comment> \<open>the specification's words: the last \<open>overlap\<close> characters of a text, or the whole
      text if it is shorter than \<open>overlap\<close>\<close>
  "spec_seed ov s = (if int (length s) < ov then s else drop (length s - nat ov) s)"

definition spec_next_buffer :: "int \<Rightarrow> string \<Rightarrow> string \<Rightarrow> string" where
  \<comment> \<open>the specification's words: the seed is taken from the closed chunk's content, which is
      the trimmed buffer, and is followed by one separator and the triggering paragraph\<close>
  "spec_next_buffer ov current_chunk paragraph =
     spec_seed ov (strip current_chunk) @ para_sep @ paragraph"

definition within_bound :: "int \<Rightarrow> int \<Rightarrow> string list \<Rightarrow> string \<Rightarrow> bool" where
  \<comment> \<open>the size bound the chunker keeps: the target plus one separator, or the overlap seed
      plus one separator plus the paragraph that started the buffer\<close>
  "within_bound sz ov ps s \<longleftrightarrow>
     int (length s) \<le> sz + 2 \<or> (\<exists>p \<in> set ps. int (length s) \<le> ov + 2 + int (length p))"

section \<open>The vector index behind the client\<close>

text \<open>
  Modelled from the spec: the Qdrant server and the \<open>qdrant_client\<close> calls are not code of
  this repository. The index state and the calls the program makes are modelled from
  section 4.3: an index has one dimension; upsert replaces an entry that shares an id and
  refuses a vector whose length is not the dimension; search keeps the entries whose
  payload matches every pair of the filter and whose score reaches the threshold, orders
  them by descending score, ties by ascending id, and returns at most \<open>limit\<close> of them;
  deletion of absent entries is a no-op. A call on a collection that does not exist fails.
  The score of a stored vector against a query vector is a parameter of the index
  (\<open>similarity\<close>): floating-point cosine similarity is not computed here.
\<close>

type_synonym vec = "real list"

record PointStruct =
  id' :: string
  vector :: vec
  payload :: pydict

record ScoredPoint =
  id' :: string
  score :: real
  payload :: pydict

record collection =
  vectors_size :: int
  points :: "PointStruct list"

text \<open>\<open>Filter(must=[FieldCondition(key=k, match=MatchValue(value=v)), ...])\<close> is the list
  of its \<open>(k, v)\<close> pairs.\<close>

type_synonym qfilter = "(string \<times> pyval) list"

record qdrant =
  collections :: "(string \<times> collection) list"
  similarity :: "vec \<Rightarrow> vec \<Rightarrow> real"

definition matches :: "qfilter option \<Rightarrow> pydict \<Rightarrow> bool" where
  "matches query_filter pl =
     (case query_filter of
        None \<Rightarrow> True
      | Some must \<Rightarrow> list_all (\<lambda>(k, v). map_of pl k = Some v) must)"

definition ranks_before :: "ScoredPoint \<Rightarrow> ScoredPoint \<Rightarrow> bool" where
  "ranks_before a b \<longleftrightarrow>
     score a > score b \<or> (score a = score b \<and> ScoredPoint.id' a \<le> ScoredPoint.id' b)"

fun insert_hit :: "ScoredPoint \<Rightarrow> ScoredPoint list \<Rightarrow> ScoredPoint list" where
  "insert_hit h [] = [h]"
| "insert_hit h (g # gs) = (if ranks_before h g then h # g # gs else g # insert_hit h gs)"

definition sort_hits :: "ScoredPoint list \<Rightarrow> ScoredPoint list" where
  "sort_hits hs = foldr insert_hit hs []"

definition client_get_collections :: "qdrant \<Rightarrow> string list" where
  "client_get_collections q = map fst (collections q)"

definition client_delete_collection :: "qdrant \<Rightarrow> string \<Rightarrow> qdrant" where
  "client_delete_collection q name = q\<lparr>collections := AList.delete name (collections q)\<rparr>"

definition client_create_collection :: "qdrant \<Rightarrow> string \<Rightarrow> int \<Rightarrow> qdrant" where
  "client_create_collection q name dimension =
     q\<lparr>collections := AList.update name \<lparr>vectors_size = dimension, points = []\<rparr> (collections q)\<rparr>"

fun upsert_point :: "PointStruct \<Rightarrow> PointStruct list \<Rightarrow> PointStruct list" where
  "upsert_point p [] = [p]"
| "upsert_point p (q # qs) =
     (if PointStruct.id' q = PointStruct.id' p then p # qs else q # upsert_point p qs)"

definition client_upsert :: "qdrant \<Rightarrow> string \<Rightarrow> PointStruct list \<Rightarrow> error + qdrant" where
  "client_upsert q name ps =
     (case map_of (collections q) name of
        None \<Rightarrow> Inl CollectionNotFound
      | Some c \<Rightarrow>
          if list_all (\<lambda>p. int (length (vector p)) = vectors_size c) ps
          then Inr (q\<lparr>collections :=
                 AList.update name
                   (c\<lparr>points := foldl (\<lambda>acc p. upsert_point p acc) (points c) ps\<rparr>)
                   (collections q)\<rparr>)
          else Inl ValidationError)"

definition client_search ::
  "qdrant \<Rightarrow> string \<Rightarrow> vec \<Rightarrow> qfilter option \<Rightarrow> int \<Rightarrow> real \<Rightarrow> error + ScoredPoint list" where
  "client_search q name query_vector query_filter limit score_threshold =
     (case map_of (collections q) name of
        None \<Rightarrow> Inl CollectionNotFound
      | Some c \<Rightarrow>
          Inr (take (nat limit)
                (sort_hits
                  (filter (\<lambda>h. score h \<ge> score_threshold)
                    (map (\<lambda>p. \<lparr>ScoredPoint.id' = PointStruct.id' p,
                                score = similarity q query_vector (vector p),
                                payload = PointStruct.payload p\<rparr>)
                      (filter (\<lambda>p. matches query_filter (PointStruct.payload p)) (points c)))))))"

definition client_delete_ids :: "qdrant \<Rightarrow> string \<Rightarrow> string list \<Rightarrow> error + qdrant" where
  "client_delete_ids q name ids =
     (case map_of (collections q) name of
        None \<Rightarrow> Inl CollectionNotFound
      | Some c \<Rightarrow>
          Inr (q\<lparr>collections :=
                 AList.update name
                   (c\<lparr>points := filter (\<lambda>p. PointStruct.id' p \<notin> set ids) (points c)\<rparr>)
                   (collections q)\<rparr>))"

definition client_delete_filter :: "qdrant \<Rightarrow> string \<Rightarrow> qfilter \<Rightarrow> error + qdrant" where
  "client_delete_filter q name must =
     (case map_of (collections q) name of
        None \<Rightarrow> Inl CollectionNotFound
      | Some c \<Rightarrow>
          Inr (q\<lparr>collections :=
                 AList.update name
                   (c\<lparr>points :=
                        filter (\<lambda>p. \<not> matches (Some must) (PointStruct.payload p)) (points c)\<rparr>)
                   (collections q)\<rparr>))"

section \<open>The vector database service (app/services/vector_db.py)\<close>

text \<open>The embedding model is a function from a text to its vector.\<close>

type_synonym embedder = "string \<Rightarrow> vec"

record VectorDatabase =
  client :: "qdrant option"
  embedding_model :: "embedder option"
  collection_name :: string
  embedding_dimension :: int

definition VectorDatabase_init :: "settings \<Rightarrow> VectorDatabase" where
  \<comment> \<open>\<open>__init__\<close>\<close>
  "VectorDatabase_init cfg =
     \<lparr>client = None, embedding_model = None,
      collection_name = qdrant_collection_name cfg,
      embedding_dimension = settings.embedding_dimension cfg\<rparr>"

definition connect ::
  "settings \<Rightarrow> qdrant option \<Rightarrow> embedder option \<Rightarrow> VectorDatabase \<Rightarrow> bool \<times> VectorDatabase" where
  \<comment> \<open>\<open>server\<close> is the index the \<open>QdrantClient\<close> constructor reaches and \<open>loaded\<close> the model
      \<open>SentenceTransformer\<close> loads; \<open>None\<close> stands for the constructor raising.\<close>
  "connect cfg server loaded self =
     (case server of
        None \<Rightarrow> (False, self)
      | Some q \<Rightarrow>
          let self1 = self\<lparr>client := Some q\<rparr>
          in (case loaded of
                None \<Rightarrow> (False, self1)
              | Some m \<Rightarrow>
                  let self2 = self1\<lparr>embedding_model := Some m\<rparr>;
                      actual_dimension = int (length (m ''test''))
                  in if actual_dimension \<noteq> settings.embedding_dimension cfg
                     then (True, self2\<lparr>embedding_dimension := actual_dimension\<rparr>)
                     else (True, self2)))"

definition create_collection :: "bool \<Rightarrow> VectorDatabase \<Rightarrow> bool \<times> VectorDatabase" where
  "create_collection recreate self =
     (case client self of
        None \<Rightarrow> (False, self)
      | Some q \<Rightarrow>
          let collection_names = client_get_collections q;
              (q1, collection_names1) =
                (if recreate \<and> collection_name self \<in> set collection_names
                 then (client_delete_collection q (collection_name self),
                       remove1 (collection_name self) collection_names)
                 else (q, collection_names));
              q2 = (if collection_name self \<notin> set collection_names1
                    then client_create_collection q1 (collection_name self)
                           (embedding_dimension self)
                    else q1)
          in (True, self\<lparr>client := Some q2\<rparr>))"

definition generate_embedding :: "VectorDatabase \<Rightarrow> string \<Rightarrow> error + vec" where
  "generate_embedding self text =
     (case embedding_model self of None \<Rightarrow> Inl RuntimeError | Some m \<Rightarrow> Inr (m text))"

definition generate_embeddings_batch :: "VectorDatabase \<Rightarrow> string list \<Rightarrow> error + vec list" where
  "generate_embeddings_batch self texts =
     (case embedding_model self of None \<Rightarrow> Inl RuntimeError | Some m \<Rightarrow> Inr (map m texts))"

definition upsert_chunks_try ::
  "VectorDatabase \<Rightarrow> string list \<Rightarrow> string list \<Rightarrow> pydict list \<Rightarrow> error + VectorDatabase" where
  \<comment> \<open>the body of the \<open>try\<close> of \<open>upsert_chunks\<close>; \<open>zip\<close> stops at the shortest list\<close>
  "upsert_chunks_try self chunk_ids texts metadatas =
     (case generate_embeddings_batch self texts of
        Inl e \<Rightarrow> Inl e
      | Inr embeddings \<Rightarrow>
          let points =
                map (\<lambda>(chunk_id, embedding, text, metadata).
                       \<lparr>PointStruct.id' = chunk_id, vector = embedding,
                        payload = dict_merge [(''text'', PStr text)] metadata\<rparr>)
                    (zip chunk_ids (zip embeddings (zip texts metadatas)))
          in (case client self of
                None \<Rightarrow> Inl AttributeError
              | Some q \<Rightarrow>
                  (case client_upsert q (collection_name self) points of
                     Inl e \<Rightarrow> Inl e
                   | Inr q' \<Rightarrow> Inr (self\<lparr>client := Some q'\<rparr>))))"

definition upsert_chunks ::
  "VectorDatabase \<Rightarrow> string list \<Rightarrow> string list \<Rightarrow> pydict list \<Rightarrow> bool \<times> VectorDatabase" where
  "upsert_chunks self chunk_ids texts metadatas =
     (case upsert_chunks_try self chunk_ids texts metadatas of
        Inl e \<Rightarrow> (False, self)
      | Inr self' \<Rightarrow> (True, self'))"

definition build_filter :: "string option \<Rightarrow> string option \<Rightarrow> qfilter option" where
  \<comment> \<open>the filter \<open>search\<close> builds from its arguments \<open>project_id\<close> (here \<open>pid\<close>) and
      \<open>document_id\<close> (here \<open>did\<close>); \<open>if project_id:\<close> and \<open>if document_id:\<close> are Python
      truth tests, for which \<open>None\<close> and the empty string are both false\<close>
  "build_filter pid did =
     (let conditions =
            (case pid of
               None \<Rightarrow> []
             | Some p \<Rightarrow> if p \<noteq> [] then [(''project_id'', PStr p)] else [])
            @
            (case did of
               None \<Rightarrow> []
             | Some d \<Rightarrow> if d \<noteq> [] then [(''document_id'', PStr d)] else [])
      in if conditions \<noteq> [] then Some conditions else None)"

fun format_results :: "nat \<Rightarrow> ScoredPoint list \<Rightarrow> pydict list" where
  \<comment> \<open>\<open>for i, hit in enumerate(search_results): results.append({...})\<close>\<close>
  "format_results i [] = []"
| "format_results i (hit # rest) =
     [(''chunk_id'', PStr (ScoredPoint.id' hit)),
      (''score'', PFloat (score hit)),
      (''rank'', PInt (int i + 1)),
      (''text'', dict_get_default (ScoredPoint.payload hit) ''text'' (PStr [])),
      (''document_id'', dict_get (ScoredPoint.payload hit) ''document_id''),
      (''project_id'', dict_get (ScoredPoint.payload hit) ''project_id''),
      (''page_number'', dict_get (ScoredPoint.payload hit) ''page_number''),
      (''metadata'', PDict (ScoredPoint.payload hit))]
     # format_results (Suc i) rest"

definition search_try ::
  "VectorDatabase \<Rightarrow> string \<Rightarrow> string option \<Rightarrow> string option \<Rightarrow> int \<Rightarrow> real
     \<Rightarrow> error + pydict list" where
  \<comment> \<open>the body of the \<open>try\<close> of \<open>search\<close>\<close>
  "search_try self query pid did top_k score_threshold =
     (case generate_embedding self query of
        Inl e \<Rightarrow> Inl e
      | Inr query_embedding \<Rightarrow>
          let query_filter = build_filter pid did
          in (case client self of
                None \<Rightarrow> Inl AttributeError
              | Some q \<Rightarrow>
                  (case client_search q (collection_name self) query_embedding query_filter
                          top_k score_threshold of
                     Inl e \<Rightarrow> Inl e
                   | Inr search_results \<Rightarrow> Inr (format_results 0 search_results))))"

definition search ::
  "VectorDatabase \<Rightarrow> string \<Rightarrow> string option \<Rightarrow> string option \<Rightarrow> int \<Rightarrow> real \<Rightarrow> pydict list" where
  \<comment> \<open>\<open>except Exception as e: logger.error(...); return []\<close>\<close>
  "search self query pid did top_k score_threshold =
     (case search_try self query pid did top_k score_threshold of
        Inl e \<Rightarrow> []
      | Inr results \<Rightarrow> results)"

definition delete_chunks :: "VectorDatabase \<Rightarrow> string list \<Rightarrow> bool \<times> VectorDatabase" where
  "delete_chunks self chunk_ids =
     (case client self of
        None \<Rightarrow> (False, self)
      | Some q \<Rightarrow>
          (case client_delete_ids q (collection_name self) chunk_ids of
             Inl e \<Rightarrow> (False, self)
           | Inr q' \<Rightarrow> (True, self\<lparr>client := Some q'\<rparr>)))"

definition delete_by_document :: "VectorDatabase \<Rightarrow> string \<Rightarrow> bool \<times> VectorDatabase" where
  "delete_by_document self did =
     (case client self of
        None \<Rightarrow> (False, self)
      | Some q \<Rightarrow>
          (case client_delete_filter q (collection_name self)
                  [(''document_id'', PStr did)] of
             Inl e \<Rightarrow> (False, self)
           | Inr q' \<Rightarrow> (True, self\<lparr>client := Some q'\<rparr>)))"

section \<open>The language-model service (app/services/llm.py)\<close>

text \<open>
  The provider calls are outside the repository. A client is a function from the model
  name and the messages, each a pair of role and content, to the answer (\<open>Inr\<close>) or to
  the message of the exception it raises (\<open>Inl\<close>).
\<close>

type_synonym llm_client = "string \<Rightarrow> (string \<times> string) list \<Rightarrow> string + string"

record llm_clients =
  openai_client :: llm_client
  anthropic_client :: llm_client







section \<open>The application state and the routes (app/api/routes)\<close>

text \<open>
  The handlers are modelled as functions on the application state; request parsing and
  response shaping by the web framework are outside. \<open>uuid4()\<close> draws the next
  identifier of a source the state carries. An HTTP error is the status code and the
  detail of the \<open>HTTPException\<close> raised.
\<close>

datatype http_error = HTTPException nat string

record app =
  db :: database
  vector_db :: VectorDatabase
  llm :: llm_clients
  uuid_source :: "nat \<Rightarrow> string"
  uuid_count :: nat

definition uuid4 :: "app \<Rightarrow> string \<times> app" where
  "uuid4 a = (uuid_source a (uuid_count a), a\<lparr>uuid_count := Suc (uuid_count a)\<rparr>)"

subsection \<open>Queries (app/api/routes/queries.py)\<close>

text \<open>
  The request carries the attributes \<open>submit_query\<close> reads. (The \<open>QueryRequest\<close> schema
  of app/schemas/query.py declares \<open>query_text\<close>, \<open>model\<close> and \<open>max_chunks\<close> only; what
  the framework does with a body parsed by that schema is outside the model.)
\<close>

record QueryRequest =
  project_id :: string
  query_text :: string
  top_k :: "int option"
  similarity_threshold :: "real option"
  model :: "string option"




definition chunks_dict_get :: "database \<Rightarrow> pyval list \<Rightarrow> pyval \<Rightarrow> Chunk option" where
  \<comment> \<open>\<open>chunks_dict.get(key)\<close>, for the dictionary built from the rows whose id is among
      \<open>chunk_ids\<close>; in a dictionary comprehension the last row of an id stays\<close>
  "chunks_dict_get d chunk_ids key =
     (case key of
        PStr s \<Rightarrow>
          map_of (rev (map (\<lambda>c. (Chunk.id' c, c))
                        (filter (\<lambda>c. PStr (Chunk.id' c) \<in> set chunk_ids) (chunk_table d)))) s
      | _ \<Rightarrow> None)"

definition docs_dict_get :: "database \<Rightarrow> pyval list \<Rightarrow> pyval \<Rightarrow> Document option" where
  \<comment> \<open>\<open>docs_dict.get(key)\<close>\<close>
  "docs_dict_get d doc_ids key =
     (case key of
        PStr s \<Rightarrow>
          map_of (rev (map (\<lambda>c. (Document.id' c, c))
                        (filter (\<lambda>c. PStr (Document.id' c) \<in> set doc_ids) (document_table d)))) s
      | _ \<Rightarrow> None)"

definition excerpt :: "string \<Rightarrow> string" where
  \<comment> \<open>\<open>chunk.content[:200] + "..." if len(chunk.content) > 200 else chunk.content\<close>\<close>
  "excerpt s = (if length s > 200 then take 200 s @ ''...'' else s)"

fun context_loop ::
  "(pyval \<Rightarrow> Chunk option) \<Rightarrow> (pyval \<Rightarrow> Document option) \<Rightarrow> nat \<Rightarrow> pydict list
     \<Rightarrow> pydict list \<times> pydict list \<Rightarrow> pydict list \<times> pydict list" where
  \<comment> \<open>\<open>for i, result in enumerate(search_results)\<close> over \<open>(context_chunks, citations)\<close>\<close>
  "context_loop cd dd i [] acc = acc"
| "context_loop cd dd i (result # rest) (context_chunks, cits) =
     context_loop cd dd (Suc i) rest
       (case (cd (dict_get result ''chunk_id''), dd (dict_get result ''document_id'')) of
          (Some c, Some document) \<Rightarrow>
            (context_chunks @
               [[(''text'', PStr (Chunk.content c)),
                 (''score'', dict_get result ''score''),
                 (''rank'', PInt (int i + 1))]],
             cits @
               [[(''chunk_id'', PStr (Chunk.id' c)),
                 (''document_id'', PStr (Document.id' document)),
                 (''document_name'', PStr (Document.filename document)),
                 (''page_number'', dict_get result ''page_number''),
                 (''similarity_score'', dict_get result ''score''),
                 (''text'', PStr (excerpt (Chunk.content c)))]])
        | _ \<Rightarrow> (context_chunks, cits))"

definition build_context :: "database \<Rightarrow> pydict list \<Rightarrow> pydict list \<times> pydict list" where
  \<comment> \<open>the context chunks and the citations \<open>submit_query\<close> derives from the search results\<close>
  "build_context d search_results =
     context_loop
       (chunks_dict_get d (map (\<lambda>result. dict_get result ''chunk_id'') search_results))
       (docs_dict_get d (map (\<lambda>result. dict_get result ''document_id'') search_results))
       0 search_results ([], [])"





subsection \<open>Documents (app/api/routes/documents.py)\<close>

text \<open>
  An upload is the file's name, its content type, the size of the saved file and the
  text that extraction yields from it (\<open>None\<close> when extraction raises).
\<close>

record UploadFile =
  filename :: string
  content_type :: string
  saved_size :: int
  extracted_text :: "string option"

definition allowed_types :: "string list" where
  "allowed_types =
     [''application/pdf'',
      ''application/vnd.openxmlformats-officedocument.wordprocessingml.document'',
      ''application/vnd.openxmlformats-officedocument.spreadsheetml.sheet'',
      ''text/plain'']"

definition process_document :: "settings \<Rightarrow> UploadFile \<Rightarrow> chunk list option" where
  \<comment> \<open>extraction, then \<open>hierarchical_chunking(text)\<close> with the configured sizes\<close>
  "process_document cfg file =
     (case extracted_text file of
        None \<Rightarrow> None
      | Some text \<Rightarrow> Some (hierarchical_chunking cfg text None None))"

fun chunk_rows_loop ::
  "string \<Rightarrow> string \<Rightarrow> string \<Rightarrow> chunk list \<Rightarrow> app
     \<Rightarrow> Chunk list \<times> string list \<times> string list \<times> pydict list
     \<Rightarrow> app \<times> Chunk list \<times> string list \<times> string list \<times> pydict list" where
  \<comment> \<open>\<open>for chunk_data in chunks_data\<close>: the rows added to the session and the three lists
      prepared for the vector store\<close>
  "chunk_rows_loop file_id pid fname [] a acc = (a, acc)"
| "chunk_rows_loop file_id pid fname (chunk_data # rest) a
       (rows, chunk_ids, chunk_texts, chunk_metadatas) =
     (let (cid, a1) = uuid4 a;
          row = \<lparr>Chunk.id' = cid, document_id = file_id,
                 Chunk.content = chunk.content chunk_data,
                 Chunk.chunk_index = chunk.chunk_index chunk_data,
                 chunk_metadata =
                   [(''start_para'', PInt (start_para chunk_data)),
                    (''end_para'', PInt (end_para chunk_data)),
                    (''char_count'', PInt (int (char_count chunk_data)))]\<rparr>
      in chunk_rows_loop file_id pid fname rest a1
           (rows @ [row], chunk_ids @ [Chunk.id' row], chunk_texts @ [Chunk.content row],
            chunk_metadatas @
              [[(''document_id'', PStr file_id), (''project_id'', PStr pid),
                (''filename'', PStr fname),
                (''chunk_index'', PInt (int (Chunk.chunk_index row)))]]))"

definition upload_document ::
  "settings \<Rightarrow> string \<Rightarrow> UploadFile \<Rightarrow> app \<Rightarrow> (http_error + Document) \<times> app" where
  "upload_document cfg pid file a =
     (if \<not> healthy (db a) then (Inl (HTTPException 500 ''Failed to upload document''), a)
      else
        (case find (\<lambda>p. Project.id' p = pid) (project_table (db a)) of
           None \<Rightarrow> (Inl (HTTPException 404 ''Project not found''), a)
         | Some project \<Rightarrow>
             if content_type file \<notin> set allowed_types
             then (Inl (HTTPException 400
                          (''File type not supported: '' @ content_type file)), a)
             else
               let (file_id, a1) = uuid4 a
               in if saved_size file > max_file_size cfg
                  then (Inl (HTTPException 400 ''File too large''), a1)
                  else
                    let db_document =
                          \<lparr>Document.id' = file_id, Document.project_id = pid,
                           Document.filename = UploadFile.filename file,
                           file_size = saved_size file, file_type = content_type file,
                           chunk_count = 0\<rparr>;
                        a2 = a1\<lparr>db := (db a1)
                               \<lparr>document_table := document_table (db a1) @ [db_document],
                                project_table :=
                                  update_first (\<lambda>p. Project.id' p = pid)
                                    (\<lambda>p. p\<lparr>document_count := document_count p + 1\<rparr>)
                                    (project_table (db a1))\<rparr>\<rparr>
                    in (case process_document cfg file of
                          None \<Rightarrow> (Inr db_document, a2)
                        | Some chunks_data \<Rightarrow>
                            let (a3, rows, chunk_ids, chunk_texts, chunk_metadatas) =
                                  chunk_rows_loop file_id pid (UploadFile.filename file)
                                    chunks_data a2 ([], [], [], []);
                                vdb = (if chunk_ids \<noteq> []
                                       then snd (upsert_chunks (vector_db a3) chunk_ids
                                                   chunk_texts chunk_metadatas)
                                       else vector_db a3);
                                db_document' =
                                  db_document\<lparr>chunk_count := int (length chunks_data)\<rparr>
                            in (Inr db_document',
                                a3\<lparr>vector_db := vdb,
                                   db := (db a3)
                                     \<lparr>chunk_table := chunk_table (db a3) @ rows,
                                      document_table :=
                                        update_first (\<lambda>d. Document.id' d = file_id)
                                          (\<lambda>d. db_document')
                                          (document_table (db a3))\<rparr>\<rparr>))))"

definition delete_document :: "string \<Rightarrow> string \<Rightarrow> app \<Rightarrow> (http_error + unit) \<times> app" where
  \<comment> \<open>deleting the row deletes its chunk rows (\<open>cascade="all, delete-orphan"\<close>); the
      handler makes no call on \<open>vector_db\<close>\<close>
  "delete_document pid did a =
     (if \<not> healthy (db a) then (Inl (HTTPException 500 ''Failed to delete document''), a)
      else
        (case find (\<lambda>d. Document.id' d = did \<and> Document.project_id d = pid)
                (document_table (db a)) of
           None \<Rightarrow> (Inl (HTTPException 404 ''Document not found''), a)
         | Some document \<Rightarrow>
             (Inr (),
              a\<lparr>db := (db a)
                 \<lparr>project_table :=
                    update_first (\<lambda>p. Project.id' p = pid)
                      (\<lambda>p. p\<lparr>document_count := max 0 (document_count p - 1)\<rparr>)
                      (project_table (db a)),
                  document_table :=
                    filter (\<lambda>d. Document.id' d \<noteq> Document.id' document)
                      (document_table (db a)),
                  chunk_table :=
                    filter (\<lambda>c. Chunk.document_id c \<noteq> Document.id' document)
                      (chunk_table (db a))\<rparr>\<rparr>)))"

subsection \<open>What the index and the store hold for a document\<close>

definition indexed_ids :: "VectorDatabase \<Rightarrow> string \<Rightarrow> string list" where
  \<comment> \<open>the ids of the vectors whose payload names the document\<close>
  "indexed_ids self did =
     (case client self of
        None \<Rightarrow> []
      | Some q \<Rightarrow>
          (case map_of (collections q) (collection_name self) of
             None \<Rightarrow> []
           | Some c \<Rightarrow>
               map PointStruct.id'
                 (filter (\<lambda>p. map_of (PointStruct.payload p) ''document_id'' = Some (PStr did))
                    (points c))))"

definition passage_ids :: "database \<Rightarrow> string \<Rightarrow> string list" where
  \<comment> \<open>the ids of the chunk rows of the document\<close>
  "passage_ids d did =
     map Chunk.id' (filter (\<lambda>c. Chunk.document_id c = did) (chunk_table d))"

section \<open>Example states\<close>

text \<open>
  A small running system for the concrete evaluations below: one project, an index of
  dimension 2 that scores every stored vector at 0.9, an embedding model that maps every
  text to the same vector, and provider clients that answer or fail.
\<close>

definition example_index :: qdrant where
  "example_index =
     \<lparr>collections = [(''rag_documents'', \<lparr>vectors_size = 2, points = []\<rparr>)],
      similarity = (\<lambda>query_vector v. 9 / 10)\<rparr>"

definition example_embedder :: embedder where
  "example_embedder = (\<lambda>t. [1, 0])"

definition example_vector_db :: VectorDatabase where
  "example_vector_db =
     \<lparr>client = Some example_index, embedding_model = Some example_embedder,
      collection_name = ''rag_documents'', embedding_dimension = 2\<rparr>"

definition answering_llm :: llm_clients where
  "answering_llm =
     \<lparr>openai_client = (\<lambda>m msgs. Inr ''An answer [1].''),
      anthropic_client = (\<lambda>m msgs. Inr ''An answer [1].'')\<rparr>"


definition example_uuid :: "nat \<Rightarrow> string" where
  "example_uuid n = ''uuid-'' @ str_nat n"

definition example_app :: app where
  "example_app =
     \<lparr>db = \<lparr>healthy = True,
             project_table = [\<lparr>Project.id' = ''p1'', document_count = 0, query_count = 0\<rparr>],
             document_table = [], chunk_table = [], query_table = []\<rparr>,
      vector_db = example_vector_db, llm = answering_llm,
      uuid_source = example_uuid, uuid_count = 0\<rparr>"

definition example_file :: UploadFile where
  "example_file =
     \<lparr>UploadFile.filename = ''notes.txt'', content_type = ''text/plain'', saved_size = 5,
      extracted_text = Some ''hello''\<rparr>"


definition uploaded_app :: app where
  \<comment> \<open>the example system after the example file has been uploaded to project \<open>p1\<close>\<close>
  "uploaded_app = snd (upload_document default_settings ''p1'' example_file example_app)"

definition index_dimension :: "VectorDatabase \<Rightarrow> int option" where
  \<comment> \<open>the dimension of the service's collection in the index, if there is one\<close>
  "index_dimension self =
     (case client self of
        None \<Rightarrow> None
      | Some q \<Rightarrow> map_option vectors_size (map_of (collections q) (collection_name self)))"

definition two_project_vector_db :: VectorDatabase where
  \<comment> \<open>an index that holds one passage of project \<open>pA\<close> and one of project \<open>pB\<close>\<close>
  "two_project_vector_db =
     example_vector_db
       \<lparr>client := Some (example_index
          \<lparr>collections :=
             [(''rag_documents'',
               \<lparr>vectors_size = 2,
                points =
                  [\<lparr>PointStruct.id' = ''b1'', vector = [1, 0],
                    payload = [(''text'', PStr ''beta''), (''document_id'', PStr ''dB''),
                               (''project_id'', PStr ''pB'')]\<rparr>,
                   \<lparr>PointStruct.id' = ''a1'', vector = [0, 1],
                    payload = [(''text'', PStr ''alpha''), (''document_id'', PStr ''dA''),
                               (''project_id'', PStr ''pA'')]\<rparr>]\<rparr>)]\<rparr>)\<rparr>"

section \<open>Properties of the chunker\<close>


lemma length_strip_le: "length (strip s) \<le> length s"
proof -
  have "length (strip s) = length (dropWhile isspace (rev (dropWhile isspace s)))"
    by (simp add: strip_def)
  also have "\<dots> \<le> length (rev (dropWhile isspace s))" by (rule length_dropWhile_le)
  also have "\<dots> \<le> length s" by (simp add: length_dropWhile_le)
  finally show ?thesis .
qed

lemma strip_inked: "strip s \<noteq> [] \<Longrightarrow> inked (strip s)"
proof -
  assume ne: "strip s \<noteq> []"
  let ?r = "dropWhile isspace (rev (dropWhile isspace s))"
  from ne have r: "?r \<noteq> []" by (simp add: strip_def)
  then have "\<not> isspace (hd ?r)" by (rule hd_dropWhile)
  moreover from r have "hd ?r \<in> set ?r" by (rule hd_in_set)
  ultimately show ?thesis unfolding inked_def strip_def by auto
qed

lemma inked_strip: "inked s \<Longrightarrow> strip s \<noteq> []"
proof -
  assume "inked s"
  then obtain c where c: "c \<in> set s" "\<not> isspace c" by (auto simp: inked_def)
  let ?d = "dropWhile isspace s"
  from c have d: "?d \<noteq> []" by auto
  then have "\<not> isspace (hd ?d)" by (rule hd_dropWhile)
  moreover from d have "hd ?d \<in> set (rev ?d)" by simp
  ultimately have "dropWhile isspace (rev ?d) \<noteq> []" by auto
  then show ?thesis by (simp add: strip_def)
qed

lemma paragraphs_inked: "p \<in> set (paragraphs t) \<Longrightarrow> inked p"
  by (auto simp: paragraphs_def intro: strip_inked)

subsection \<open>The overlap seed\<close>

lemma overlap_text_spec_seed: "0 < ov \<Longrightarrow> overlap_text ov s = spec_seed ov s"
  by (auto simp: overlap_text_def spec_seed_def slice_last_def Let_def nat_diff_distrib' max_def)

lemma length_overlap_text: "0 < ov \<Longrightarrow> int (length (overlap_text ov s)) \<le> ov"
  by (auto simp: overlap_text_def slice_last_def Let_def)

subsection \<open>Size bound\<close>

lemma within_bound_strip: "within_bound sz ov ps s \<Longrightarrow> within_bound sz ov ps (strip s)"
proof -
  assume b: "within_bound sz ov ps s"
  have "int (length (strip s)) \<le> int (length s)" using length_strip_le [of s] by simp
  with b show ?thesis unfolding within_bound_def by (meson order_trans)
qed

lemma next_buffer_bound:
  assumes ov: "0 < ov" and p: "p \<in> set ps"
  shows "within_bound sz ov ps (next_buffer sz ov cur p)"
proof (cases "closes sz cur p")
  case True
  have "int (length (overlap_text ov cur @ para_sep @ p)) \<le> ov + 2 + int (length p)"
    using length_overlap_text [OF ov, of cur] by (simp add: para_sep_def)
  with p have "within_bound sz ov ps (overlap_text ov cur @ para_sep @ p)"
    unfolding within_bound_def by blast
  with True show ?thesis by (simp add: next_buffer_def)
next
  case False
  show ?thesis
  proof (cases "cur = []")
    case True
    from ov have "int (length p) \<le> ov + 2 + int (length p)" by simp
    with p have "within_bound sz ov ps p" unfolding within_bound_def by blast
    with True False show ?thesis by (simp add: next_buffer_def)
  next
    case ne: False
    with False have "int (length cur) + int (length p) \<le> sz" by (simp add: closes_def)
    then have "int (length (cur @ para_sep @ p)) \<le> sz + 2" by (simp add: para_sep_def)
    with False ne show ?thesis by (simp add: next_buffer_def within_bound_def)
  qed
qed

lemma chunk_loop_bound:
  assumes "0 < ov"
    and "set rest \<subseteq> set ps"
    and "\<forall>c \<in> set chunks. within_bound sz ov ps (content c)"
    and "cur = [] \<or> within_bound sz ov ps cur"
    and "chunk_loop sz ov i rest (chunks, cur, idx) = (chunks', cur', idx')"
  shows "(\<forall>c \<in> set chunks'. within_bound sz ov ps (content c)) \<and>
         (cur' = [] \<or> within_bound sz ov ps cur')"
  using assms
proof (induction rest arbitrary: i chunks cur idx)
  case Nil
  then show ?case by simp
next
  case (Cons p rest)
  have p: "p \<in> set ps" using Cons.prems(2) by simp
  have nb: "within_bound sz ov ps (next_buffer sz ov cur p)"
    by (rule next_buffer_bound [OF Cons.prems(1) p])
  show ?case
  proof (cases "closes sz cur p")
    case True
    then have "cur \<noteq> []" by (simp add: closes_def)
    with Cons.prems(4) have "within_bound sz ov ps (content (emit cur idx i))"
      by (simp add: emit_def within_bound_strip)
    with Cons.prems(3) have cs: "\<forall>c \<in> set (chunks @ [emit cur idx i]). within_bound sz ov ps (content c)"
      by simp
    from Cons.prems(5) True
    have run: "chunk_loop sz ov (Suc i) rest (chunks @ [emit cur idx i], next_buffer sz ov cur p, Suc idx) = (chunks', cur', idx')"
      by simp
    show ?thesis
      by (rule Cons.IH [OF Cons.prems(1) _ cs _ run]) (use Cons.prems(2) nb in auto)
  next
    case False
    from Cons.prems(5) False
    have run: "chunk_loop sz ov (Suc i) rest (chunks, next_buffer sz ov cur p, idx) = (chunks', cur', idx')"
      by simp
    show ?thesis
      by (rule Cons.IH [OF Cons.prems(1) _ Cons.prems(3) _ run]) (use Cons.prems(2) nb in auto)
  qed
qed

lemma chunk_size_bound:
  assumes "0 < ov"
  shows "\<forall>c \<in> set (chunk_text document_text sz ov).
           within_bound sz ov (paragraphs document_text) (content c)"
proof -
  obtain chunks cur idx where
    run: "chunk_loop sz ov 0 (paragraphs document_text) ([], [], 0) = (chunks, cur, idx)"
    by (cases "chunk_loop sz ov 0 (paragraphs document_text) ([], [], 0)") auto
  have inv: "(\<forall>c \<in> set chunks. within_bound sz ov (paragraphs document_text) (content c)) \<and>
        (cur = [] \<or> within_bound sz ov (paragraphs document_text) cur)"
    by (rule chunk_loop_bound [OF assms _ _ _ run]) auto
  show ?thesis
  proof (cases "strip cur = []")
    case True
    with run inv show ?thesis by (simp add: chunk_text_def)
  next
    case False
    then have "cur \<noteq> []" by (auto simp: strip_def)
    with inv have "within_bound sz ov (paragraphs document_text) (strip cur)"
      by (simp add: within_bound_strip)
    with run inv False show ?thesis by (simp add: chunk_text_def emit_def Let_def)
  qed
qed



subsection \<open>Size of the chunks\<close>

text \<open>
  The specification's own scenario: three paragraphs of 7 characters, target size 15,
  overlap 5. The close test adds 7 and 7, finds 14, and joins the first two paragraphs
  into a chunk of 16 characters; none of the paragraphs exceeds the target.
\<close>

theorem chunk_exceeds_target_counterexample:
  "paragraphs (''Para A.'' @ para_sep @ ''Para B.'' @ para_sep @ ''Para C.'')
     = [''Para A.'', ''Para B.'', ''Para C.''] \<and>
   map content (chunk_text (''Para A.'' @ para_sep @ ''Para B.'' @ para_sep @ ''Para C.'') 15 5)
     = [''Para A.'' @ para_sep @ ''Para B.'', ''ra B.'' @ para_sep @ ''Para C.''] \<and>
   \<not> int (length (content
       (chunk_text (''Para A.'' @ para_sep @ ''Para B.'' @ para_sep @ ''Para C.'') 15 5 ! 0))) \<le> 15"
  by code_simp

text \<open>
  Claim C3, as amended. With a positive overlap, every chunk the chunker emits is at most
  \<open>target_size + 2\<close> characters long (the separator of a join is not counted by the close
  test), or at most \<open>overlap + 2 + len(p)\<close> characters long for a paragraph \<open>p\<close> of the
  text (a buffer started by \<open>p\<close> alone or by the overlap seed, a separator and \<open>p\<close>).
\<close>

theorem chunk_length_bound:
  assumes "0 < ov" and "c \<in> set (chunk_text document_text sz ov)"
  shows "int (length (content c)) \<le> sz + 2 \<or>
         (\<exists>p \<in> set (paragraphs document_text). int (length (content c)) \<le> ov + 2 + int (length p))"
  using chunk_size_bound [OF assms(1), of document_text sz] assms(2)
  unfolding within_bound_def by blast

theorem chunk_length_bound_witness:
  "(0::int) < 5 \<and>
   \<lparr>content = ''Para A.'' @ para_sep @ ''Para B.'', chunk_index = 0, start_para = 0,
     end_para = 2, char_count = 16\<rparr>
     \<in> set (chunk_text (''Para A.'' @ para_sep @ ''Para B.'' @ para_sep @ ''Para C.'') 15 5) \<and>
   (int (length (''Para A.'' @ para_sep @ ''Para B.'')) \<le> 15 + 2 \<or>
    (\<exists>p \<in> set (paragraphs (''Para A.'' @ para_sep @ ''Para B.'' @ para_sep @ ''Para C.'')).
       int (length (''Para A.'' @ para_sep @ ''Para B.'')) \<le> 5 + 2 + int (length p)))"
proof -
  have pos: "(0::int) < 5" by simp
  have mem: "\<lparr>content = ''Para A.'' @ para_sep @ ''Para B.'', chunk_index = 0, start_para = 0,
       end_para = 2, char_count = 16\<rparr>
     \<in> set (chunk_text (''Para A.'' @ para_sep @ ''Para B.'' @ para_sep @ ''Para C.'') 15 5)"
    by code_simp
  from chunk_length_bound [OF pos mem] pos mem show ?thesis by simp
qed

subsection \<open>No validation of the target size\<close>

text \<open>
  With a target size of 0 the chunker returns a chunk; it has no failure outcome.
\<close>

theorem nonpositive_size_counterexample:
  "hierarchical_chunking default_settings ''a'' (Some 0) None =
     [\<lparr>content = ''a'', chunk_index = 0, start_para = 0, end_para = 1, char_count = 1\<rparr>]"
  by code_simp

lemma closes_nonpositive: "sz \<le> 0 \<Longrightarrow> closes sz cur p \<longleftrightarrow> cur \<noteq> []"
  by (cases cur) (auto simp: closes_def)

lemma next_buffer_inked: "inked p \<Longrightarrow> inked (next_buffer sz ov cur p)"
  by (auto simp: next_buffer_def inked_def)

lemma chunk_loop_count:
  assumes "sz \<le> 0"
    and "\<forall>p \<in> set rest. inked p"
    and "cur = [] \<or> inked cur"
    and "chunk_loop sz ov i rest (chunks, cur, idx) = (chunks', cur', idx')"
  shows "length chunks' + (if cur' = [] then 0 else 1)
           = length chunks + (if cur = [] then 0 else 1) + length rest \<and>
         (cur' = [] \<or> inked cur')"
  using assms
proof (induction rest arbitrary: i chunks cur idx)
  case Nil
  then show ?case by simp
next
  case (Cons p rest)
  have p: "inked p" using Cons.prems(2) by simp
  have nb: "inked (next_buffer sz ov cur p)" by (rule next_buffer_inked [OF p])
  then have ne: "next_buffer sz ov cur p \<noteq> []" by (auto simp: inked_def)
  have rest: "\<forall>p \<in> set rest. inked p" using Cons.prems(2) by simp
  show ?case
  proof (cases "cur = []")
    case True
    then have "\<not> closes sz cur p" by (simp add: closes_def)
    with Cons.prems(4)
    have run: "chunk_loop sz ov (Suc i) rest (chunks, next_buffer sz ov cur p, idx) = (chunks', cur', idx')"
      by simp
    from Cons.IH [OF Cons.prems(1) rest _ run] nb ne True show ?thesis by simp
  next
    case False
    then have "closes sz cur p" using Cons.prems(1) by (simp add: closes_nonpositive)
    with Cons.prems(4)
    have run: "chunk_loop sz ov (Suc i) rest
        (chunks @ [emit cur idx i], next_buffer sz ov cur p, Suc idx) = (chunks', cur', idx')"
      by simp
    from Cons.IH [OF Cons.prems(1) rest _ run] nb ne False show ?thesis by simp
  qed
qed

lemma chunk_text_count: "sz \<le> 0 \<Longrightarrow> length (chunk_text t sz ov) = length (paragraphs t)"
proof -
  assume sz: "sz \<le> 0"
  obtain chunks cur idx where
    run: "chunk_loop sz ov 0 (paragraphs t) ([], [], 0) = (chunks, cur, idx)"
    by (cases "chunk_loop sz ov 0 (paragraphs t) ([], [], 0)") auto
  have inks: "\<forall>p \<in> set (paragraphs t). inked p" by (simp add: paragraphs_inked)
  have cnt: "length chunks + (if cur = [] then 0 else 1) = length ([]::chunk list) + (if ([]::string) = [] then 0 else 1) + length (paragraphs t)
      \<and> (cur = [] \<or> inked cur)"
    by (rule chunk_loop_count [OF sz inks _ run]) simp
  show ?thesis
  proof (cases "cur = []")
    case True
    with run cnt show ?thesis by (simp add: chunk_text_def strip_def)
  next
    case False
    with cnt have "strip cur \<noteq> []" by (simp add: inked_strip)
    with run cnt False show ?thesis by (simp add: chunk_text_def Let_def)
  qed
qed

text \<open>
  Claim C7, as amended. The chunker checks neither argument and has no failure outcome:
  called with a target size that is zero or negative it returns chunks, one for each
  paragraph of the text.
\<close>

theorem nonpositive_size_chunks:
  "sz \<le> 0 \<Longrightarrow>
   length (hierarchical_chunking cfg document_text (Some sz) overlap_arg)
     = length (paragraphs document_text)"
  by (simp add: hierarchical_chunking_def chunk_text_count)

theorem nonpositive_size_chunks_witness:
  "(- 3::int) \<le> 0 \<and>
   length (hierarchical_chunking default_settings (''one'' @ para_sep @ ''two'') (Some (- 3)) None) = 2 \<and>
   length (paragraphs (''one'' @ para_sep @ ''two'')) = 2"
proof -
  have neg: "(- 3::int) \<le> 0" by simp
  have two: "length (paragraphs (''one'' @ para_sep @ ''two'')) = 2" by code_simp
  from nonpositive_size_chunks [OF neg, of default_settings "''one'' @ para_sep @ ''two''" None] neg two
  show ?thesis by simp
qed

subsection \<open>The overlap seed after a close\<close>

text \<open>
  A buffer that begins with whitespace brought in by an earlier overlap seed: the chunk's
  content is the trimmed buffer, of 4 characters, shorter than the overlap of 5, and the
  seed is cut from the untrimmed buffer, so it is not the whole content. The last chunk
  records 8 characters where a seed taken from the content would give 7.
\<close>

theorem seed_from_trimmed_content_counterexample:
  "paragraphs (''zzz    b'' @ para_sep @ ''x'' @ para_sep @ ''y'') = [''zzz    b'', ''x'', ''y''] \<and>
   map char_count (chunk_text (''zzz    b'' @ para_sep @ ''x'' @ para_sep @ ''y'') 1 5) = [8, 8, 8] \<and>
   chunk_loop 1 5 0 [''zzz    b'', ''x''] ([], [], 0) =
     ([\<lparr>content = ''zzz    b'', chunk_index = 0, start_para = 0, end_para = 1, char_count = 8\<rparr>],
      ''    b'' @ para_sep @ ''x'', 1) \<and>
   closes 1 (''    b'' @ para_sep @ ''x'') ''y'' \<and>
   strip (''    b'' @ para_sep @ ''x'') = ''b'' @ para_sep @ ''x'' \<and>
   next_buffer 1 5 (''    b'' @ para_sep @ ''x'') ''y'' = '' b'' @ para_sep @ ''x'' @ para_sep @ ''y'' \<and>
   spec_next_buffer 5 (''    b'' @ para_sep @ ''x'') ''y'' = ''b'' @ para_sep @ ''x'' @ para_sep @ ''y'' \<and>
   length (spec_next_buffer 5 (''    b'' @ para_sep @ ''x'') ''y'') = 7 \<and>
   next_buffer 1 5 (''    b'' @ para_sep @ ''x'') ''y'' \<noteq> spec_next_buffer 5 (''    b'' @ para_sep @ ''x'') ''y''"
  by code_simp

text \<open>
  Claim C8, as amended. Whenever the chunker closes a chunk and the overlap is positive,
  the next buffer is the last \<open>overlap\<close> characters of the working buffer as it stands,
  untrimmed (the whole buffer if it is shorter than \<open>overlap\<close>), followed by one paragraph
  separator and the paragraph that triggered the close.
\<close>

theorem seed_from_buffer:
  assumes "closes sz current_chunk paragraph" and "0 < ov"
  shows "next_buffer sz ov current_chunk paragraph = spec_seed ov current_chunk @ para_sep @ paragraph \<and>
         chunk_loop sz ov i (paragraph # rest) (chunks, current_chunk, idx) =
           chunk_loop sz ov (Suc i) rest
             (chunks @ [emit current_chunk idx i],
              spec_seed ov current_chunk @ para_sep @ paragraph, Suc idx)"
  using assms by (simp add: next_buffer_def overlap_text_spec_seed)

theorem seed_from_buffer_witness:
  "closes 15 (''Para A.'' @ para_sep @ ''Para B.'') ''Para C.'' \<and> (0::int) < 5 \<and>
   next_buffer 15 5 (''Para A.'' @ para_sep @ ''Para B.'') ''Para C.'' = ''ra B.'' @ para_sep @ ''Para C.'' \<and>
   spec_seed 5 (''Para A.'' @ para_sep @ ''Para B.'') = ''ra B.''"
proof -
  have cl: "closes 15 (''Para A.'' @ para_sep @ ''Para B.'') ''Para C.''" by code_simp
  have pos: "(0::int) < 5" by simp
  have seed: "spec_seed 5 (''Para A.'' @ para_sep @ ''Para B.'') = ''ra B.''" by code_simp
  from seed_from_buffer [OF cl pos] cl pos seed show ?thesis by simp
qed

text \<open>
  With an overlap of 0 the slice \<open>current_chunk[-0:]\<close> is the whole buffer, so every closed
  chunk is carried into the next one in full.
\<close>

lemma zero_overlap_keeps_whole_buffer:
  "overlap_text 0 ''aaaa'' = ''aaaa'' \<and>
   map content (chunk_text (''aaaa'' @ para_sep @ ''bbbb'' @ para_sep @ ''cc'') 5 0) =
     [''aaaa'', ''aaaa'' @ para_sep @ ''bbbb'', ''aaaa'' @ para_sep @ ''bbbb'' @ para_sep @ ''cc'']"
  by code_simp



section \<open>Properties of the vector database service\<close>

subsection \<open>Dimension discovered at connection\<close>

text \<open>
  The configured dimension is 384 and the model's vectors have length 2: \<open>connect\<close>
  reports success and the service carries dimension 2 from then on.
\<close>

theorem connect_adopts_dimension_counterexample:
  "settings.embedding_dimension default_settings = 384 \<and>
   int (length (example_embedder ''test'')) = 2 \<and>
   fst (connect default_settings (Some example_index) (Some example_embedder)
          (VectorDatabase_init default_settings)) = True \<and>
   embedding_dimension
     (snd (connect default_settings (Some example_index) (Some example_embedder)
             (VectorDatabase_init default_settings))) = 2"
  by code_simp

text \<open>
  Claim C5, as amended. If the dimension discovered at connection differs from the
  configured one, \<open>connect\<close> does not fail: it keeps the client and the model, adopts
  the discovered dimension as the service's \<open>embedding_dimension\<close> and returns \<open>True\<close>.
  No vector is truncated.
\<close>

theorem connect_adopts_dimension:
  assumes "int (length (m ''test'')) \<noteq> settings.embedding_dimension cfg"
  shows "connect cfg (Some q) (Some m) self =
           (True, self\<lparr>client := Some q, embedding_model := Some m,
                       embedding_dimension := int (length (m ''test''))\<rparr>)"
  using assms by (simp add: connect_def Let_def)

theorem connect_adopts_dimension_witness:
  "int (length (example_embedder ''test'')) \<noteq> settings.embedding_dimension default_settings \<and>
   connect default_settings (Some example_index) (Some example_embedder)
       (VectorDatabase_init default_settings) =
     (True, (VectorDatabase_init default_settings)
              \<lparr>client := Some example_index, embedding_model := Some example_embedder,
               embedding_dimension := 2\<rparr>)"
proof -
  have differ: "int (length (example_embedder ''test''))
                  \<noteq> settings.embedding_dimension default_settings"
    by (simp add: example_embedder_def default_settings_def)
  have two: "int (length (example_embedder ''test'')) = 2"
    by (simp add: example_embedder_def)
  from connect_adopts_dimension
         [where m = example_embedder and cfg = default_settings and q = example_index
            and self = "VectorDatabase_init default_settings", OF differ]
    differ two
  show ?thesis by simp
qed

subsection \<open>Creating the collection\<close>

text \<open>
  The service has dimension 3 and the index already holds the collection with dimension
  2: \<open>create_collection\<close> reports success, and the collection keeps dimension 2.
\<close>

theorem create_collection_mismatch_counterexample:
  "embedding_dimension (example_vector_db\<lparr>embedding_dimension := 3\<rparr>) = 3 \<and>
   index_dimension (example_vector_db\<lparr>embedding_dimension := 3\<rparr>) = Some 2 \<and>
   fst (create_collection False (example_vector_db\<lparr>embedding_dimension := 3\<rparr>)) = True \<and>
   index_dimension (snd (create_collection False (example_vector_db\<lparr>embedding_dimension := 3\<rparr>)))
     = Some 2"
  by code_simp

text \<open>
  Claim C6, as amended. When a collection of the same name already exists,
  \<open>create_collection(recreate=False)\<close> returns \<open>True\<close> and changes nothing, whatever the
  dimension of the existing collection: the dimension is not compared.
\<close>

theorem create_collection_existing:
  assumes "client self = Some q"
    and "collection_name self \<in> set (client_get_collections q)"
  shows "create_collection False self = (True, self)"
  using assms by (simp add: create_collection_def Let_def)

theorem create_collection_existing_witness:
  "client (example_vector_db\<lparr>embedding_dimension := 3\<rparr>) = Some example_index \<and>
   collection_name (example_vector_db\<lparr>embedding_dimension := 3\<rparr>)
     \<in> set (client_get_collections example_index) \<and>
   index_dimension (example_vector_db\<lparr>embedding_dimension := 3\<rparr>) = Some 2 \<and>
   create_collection False (example_vector_db\<lparr>embedding_dimension := 3\<rparr>)
     = (True, example_vector_db\<lparr>embedding_dimension := 3\<rparr>)"
proof -
  have c: "client (example_vector_db\<lparr>embedding_dimension := 3\<rparr>) = Some example_index"
    by (simp add: example_vector_db_def)
  have n: "collection_name (example_vector_db\<lparr>embedding_dimension := 3\<rparr>)
             \<in> set (client_get_collections example_index)"
    by (simp add: example_vector_db_def example_index_def client_get_collections_def)
  have d: "index_dimension (example_vector_db\<lparr>embedding_dimension := 3\<rparr>) = Some 2"
    by code_simp
  from create_collection_existing [OF c n] c n d show ?thesis by simp
qed

subsection \<open>The scope of a search\<close>

lemma build_filter_project:
  "p \<noteq> [] \<Longrightarrow> build_filter (Some p) None = Some [(''project_id'', PStr p)]"
  by (simp add: build_filter_def)

text \<open>
  Claim C10. When \<open>project_id\<close> is \<open>None\<close> or the empty string (and likewise
  \<open>document_id\<close>), \<open>search\<close> attaches no filter: every payload matches, and the result
  is that of a search of the whole index.
\<close>

theorem falsy_scope_searches_everything:
  assumes "pid = None \<or> pid = Some []" and "did = None \<or> did = Some []"
  shows "build_filter pid did = None \<and>
         matches (build_filter pid did) pl \<and>
         search self query pid did k t = search self query None None k t"
proof -
  from assms have f: "build_filter pid did = None" by (auto simp: build_filter_def)
  have g: "build_filter None None = None" by (simp add: build_filter_def)
  have "search_try self query pid did k t = search_try self query None None k t"
    unfolding search_try_def f g by (rule refl)
  with f show ?thesis by (simp add: search_def matches_def)
qed

theorem falsy_scope_searches_everything_witness:
  "(Some [] = (None::string option) \<or> Some [] = Some ([]::string)) \<and>
   ((None::string option) = None \<or> None = Some ([]::string)) \<and>
   build_filter (Some []) None = None \<and>
   map (\<lambda>r. (dict_get r ''chunk_id'', dict_get r ''project_id''))
     (search two_project_vector_db ''anything'' (Some []) None 5 (7 / 10))
     = [(PStr ''a1'', PStr ''pA''), (PStr ''b1'', PStr ''pB'')] \<and>
   map (\<lambda>r. (dict_get r ''chunk_id'', dict_get r ''project_id''))
     (search two_project_vector_db ''anything'' (Some ''pB'') None 5 (7 / 10))
     = [(PStr ''b1'', PStr ''pB'')]"
proof -
  have p: "Some [] = (None::string option) \<or> Some [] = Some ([]::string)" by simp
  have d: "(None::string option) = None \<or> None = Some ([]::string)" by simp
  have all: "map (\<lambda>r. (dict_get r ''chunk_id'', dict_get r ''project_id''))
     (search two_project_vector_db ''anything'' None None 5 (7 / 10))
     = [(PStr ''a1'', PStr ''pA''), (PStr ''b1'', PStr ''pB'')]"
    by code_simp
  have one: "map (\<lambda>r. (dict_get r ''chunk_id'', dict_get r ''project_id''))
     (search two_project_vector_db ''anything'' (Some ''pB'') None 5 (7 / 10))
     = [(PStr ''b1'', PStr ''pB'')]"
    by code_simp
  from falsy_scope_searches_everything [OF p d, of "[]" two_project_vector_db "''anything''" 5 "7 / 10"]
    all one
  show ?thesis by simp
qed



section \<open>Properties of the routes\<close>

subsection \<open>Deleting a document\<close>

text \<open>
  \<open>delete_document\<close> never touches the vector database, whatever its arguments.
\<close>

lemma delete_document_keeps_index: "vector_db (snd (delete_document pid did a)) = vector_db a"
  by (simp add: delete_document_def split: option.split)

text \<open>
  Claim C1, evaluated. A text file is uploaded to project \<open>p1\<close>: the document \<open>uuid-0\<close>
  has one passage, \<open>uuid-1\<close>, and the index holds one vector for it, \<open>uuid-1\<close>. The document
  is then deleted: its row and its passage are gone, and the index still holds the vector
  \<open>uuid-1\<close>. The claim asks for an empty list there, which is what \<open>delete_by_document\<close>,
  never called by the handler, would have left.
\<close>

theorem delete_document_leaves_vectors:
  "passage_ids (db uploaded_app) ''uuid-0'' = [''uuid-1''] \<and>
   indexed_ids (vector_db uploaded_app) ''uuid-0'' = [''uuid-1''] \<and>
   fst (delete_document ''p1'' ''uuid-0'' uploaded_app) = Inr () \<and>
   document_table (db (snd (delete_document ''p1'' ''uuid-0'' uploaded_app))) = [] \<and>
   passage_ids (db (snd (delete_document ''p1'' ''uuid-0'' uploaded_app))) ''uuid-0'' = [] \<and>
   indexed_ids (vector_db (snd (delete_document ''p1'' ''uuid-0'' uploaded_app))) ''uuid-0''
     = [''uuid-1''] \<and>
   indexed_ids (snd (delete_by_document (vector_db uploaded_app) ''uuid-0'')) ''uuid-0'' = []"
  by code_simp

subsection \<open>A search that fails\<close>




subsection \<open>A generation that fails\<close>



subsection \<open>The fields of a citation\<close>



text \<open>
  The context chunk built for the same query carries the 1-based rank of its hit.
\<close>

lemma context_chunk_has_rank:
  "fst (build_context (db uploaded_app)
          (search (vector_db uploaded_app) ''anything'' (Some ''p1'') None 5 (7 / 10)))
     = [[(''text'', PStr ''hello''), (''score'', PFloat (9 / 10)), (''rank'', PInt 1)]]"
  by code_simp

text \<open>
  The return value of \<open>upsert_chunks\<close> is not read by \<open>upload_document\<close>: when the upsert
  fails, the passages are stored and the index holds nothing for the document.
\<close>

lemma upload_ignores_failed_upsert:
  "fst (upsert_chunks ((vector_db example_app)\<lparr>embedding_model := None\<rparr>)
          [''uuid-1''] [''hello''] [[]]) = False \<and>
   passage_ids
     (db (snd (upload_document default_settings ''p1'' example_file
                 (example_app\<lparr>vector_db := (vector_db example_app)\<lparr>embedding_model := None\<rparr>\<rparr>))))
     ''uuid-0'' = [''uuid-1''] \<and>
   indexed_ids
     (vector_db (snd (upload_document default_settings ''p1'' example_file
                 (example_app\<lparr>vector_db := (vector_db example_app)\<lparr>embedding_model := None\<rparr>\<rparr>))))
     ''uuid-0'' = []"
  by code_simp

end
